theory Spec2Isabelle
  imports Main "HOL-Library.AList" "HOL-Library.Char_ord" "HOL-Library.List_Lexorder"
begin

section \<open>Python strings\<close>

text \<open>
  A Python \<open>str\<close> is a \<^typ>\<open>string\<close>; a \<^typ>\<open>char\<close> stands for one code point below 256.
  \<open>str.isspace\<close> holds on those code points for 9 to 13, 28 to 32, 133 and 160, and
  \<open>str.strip()\<close> removes the longest prefix and the longest suffix of such characters.
\<close>

definition isspace :: "char \<Rightarrow> bool" where
  "isspace c =
     (let n = (of_char c :: nat)
      in (9 \<le> n \<and> n \<le> 13) \<or> (28 \<le> n \<and> n \<le> 32) \<or> n = 133 \<or> n = 160)"

definition strip :: "string \<Rightarrow> string" where
  "strip s = rev (dropWhile isspace (rev (dropWhile isspace s)))"

definition newline :: char where
  "newline = CHR 0x0A"

text \<open>\<open>x.replace(old, new)\<close> for a one-character \<open>old\<close>.\<close>

definition replace :: "char \<Rightarrow> string \<Rightarrow> string \<Rightarrow> string" where
  "replace old new x = concat (map (\<lambda>c. if c = old then new else [c]) x)"

text \<open>\<open>sep.join(xs)\<close>: the separator stands between neighbours only.\<close>

fun join :: "string \<Rightarrow> string list \<Rightarrow> string" where
  "join sep [] = []"
| "join sep [x] = x"
| "join sep (x # y # ys) = x @ sep @ join sep (y # ys)"

text \<open>\<open>s.endswith(suffix)\<close>.\<close>

definition endswith :: "string \<Rightarrow> string \<Rightarrow> bool" where
  "endswith s suf = (length suf \<le> length s \<and> drop (length s - length suf) s = suf)"

section \<open>Errors\<close>

text \<open>
  One constructor for each place where the module raises, named after what the message
  says; the message text itself is left out.
  \<^item> \<open>DuplicateLanguage\<close>: \<open>KeyError\<close> of \<open>add_item\<close>, "already registered".
  \<^item> \<open>LanguageNotFound\<close>: \<open>KeyError\<close> of \<open>get_item\<close> under \<open>EXCEPTION\<close>.
  \<^item> \<open>NoItemsRegistered\<close>: \<open>KeyError\<close> of \<open>get_item\<close> under \<open>ANY\<close> on an empty container.
  \<^item> \<open>DefaultLanguageNotFound\<close>: \<open>KeyError\<close> of \<open>get_item\<close> under \<open>USE_DEFAULT_LANG\<close>.
  \<^item> \<open>ForbiddenParameterNames\<close>, \<open>InconsistentParameters\<close>: the two \<open>ValueError\<close>s of
    \<open>add_prompt_template\<close>.
  \<^item> \<open>NoPromptTemplates\<close>: \<open>RuntimeError\<close> of \<open>MultiLangPromptTemplate.get_parameters\<close>.
  \<^item> \<open>MissingPromptsKey\<close>, \<open>InvalidPromptType\<close>: \<open>KeyError\<close> and \<open>ValueError\<close> of
    \<open>_load_from_disc\<close>.
  \<^item> \<open>UnknownName\<close>: the \<open>KeyError\<close> of a dictionary subscript with an unregistered
    prompt name.
  \<^item> \<open>PyTypeError\<close>, \<open>PyAttributeError\<close>: raised by the interpreter when the parsed
    data does not have the shape an operation needs.
  \<^item> \<open>TemplateError\<close>: whatever the template engine raises.
\<close>

datatype error =
    DuplicateLanguage
  | LanguageNotFound
  | NoItemsRegistered
  | DefaultLanguageNotFound
  | ForbiddenParameterNames
  | InconsistentParameters
  | NoPromptTemplates
  | MissingPromptsKey
  | InvalidPromptType
  | UnknownName
  | PyTypeError
  | PyAttributeError
  | TemplateError string

section \<open>The template engine\<close>

text \<open>
  Class \<open>JinjaTemplate\<close> (module \<open>jinja_template\<close>) is not among the sources. It is
  taken as a parameter: a compiled template has some type \<open>'t\<close>, and the engine is its
  constructor (which may raise), its \<open>render(**kwargs)\<close> and its \<open>get_parameters()\<close>.
  Keyword arguments are a list of name and value pairs with values of any type \<open>'v\<close>.
\<close>

record ('t, 'v) JinjaTemplate =
  jinja_init :: "string \<Rightarrow> error + 't"
  jinja_render :: "'t \<Rightarrow> (string \<times> 'v) list \<Rightarrow> error + string"
  jinja_get_parameters :: "'t \<Rightarrow> string list"

section \<open>PromptTemplate and PromptList\<close>

record 't PromptTemplate =
  pt_name :: string
  jinja_template :: 't

definition PromptTemplate_init ::
  "('t, 'v) JinjaTemplate \<Rightarrow> string \<Rightarrow> string \<Rightarrow> error + 't PromptTemplate" where
  "PromptTemplate_init J n jinja_template_string =
     (case jinja_init J (strip jinja_template_string) of
        Inl e \<Rightarrow> Inl e
      | Inr t \<Rightarrow> Inr \<lparr>pt_name = n, jinja_template = t\<rparr>)"

definition pt_render ::
  "('t, 'v) JinjaTemplate \<Rightarrow> 't PromptTemplate \<Rightarrow> (string \<times> 'v) list \<Rightarrow> error + string" where
  "pt_render J pt kwargs = jinja_render J (jinja_template pt) kwargs"

definition pt_get_parameters :: "('t, 'v) JinjaTemplate \<Rightarrow> 't PromptTemplate \<Rightarrow> string list" where
  "pt_get_parameters J pt = jinja_get_parameters J (jinja_template pt)"

record PromptList =
  items :: "string list"

definition PromptList_init :: "string list \<Rightarrow> PromptList" where
  "PromptList_init xs = \<lparr>items = map strip xs\<rparr>"

definition to_string :: "PromptList \<Rightarrow> string" where
  "to_string pl =
     (let bullet = '' * '';
          indent = replicate (length bullet) CHR '' '';
          its = map (replace newline (newline # indent)) (items pl)
      in join (newline # '' * '') its)"

section \<open>The container of language variants\<close>

definition DEFAULT_LANG_CODE :: string where
  "DEFAULT_LANG_CODE = ''default''"

datatype LanguageFallbackMode = ANY | EXCEPTION | USE_DEFAULT_LANG

text \<open>
  A Python dictionary keeps its keys in insertion order, and assigning to a key that is
  present keeps the key's position: an association list with \<^const>\<open>AList.update\<close>.
  \<open>add_item\<close> and \<open>add_prompt_template\<close> raise before they assign anything, so on
  \<open>Inl\<close> the object is the one that was passed in.
\<close>

record 'a MultiLangContainer =
  name :: string
  lang2item :: "(string \<times> 'a) list"

definition MultiLangContainer_init :: "string \<Rightarrow> 'a MultiLangContainer" where
  "MultiLangContainer_init n = \<lparr>name = n, lang2item = []\<rparr>"

definition get_language_codes :: "'a MultiLangContainer \<Rightarrow> string list" where
  "get_language_codes c = map fst (lang2item c)"

definition add_item ::
  "'a MultiLangContainer \<Rightarrow> 'a \<Rightarrow> string \<Rightarrow> bool \<Rightarrow> error + 'a MultiLangContainer" where
  "add_item c item lang_code allow_overwrite =
     (if \<not> allow_overwrite \<and> lang_code \<in> set (map fst (lang2item c))
      then Inl DuplicateLanguage
      else Inr (c\<lparr>lang2item := AList.update lang_code item (lang2item c)\<rparr>))"

definition get_item ::
  "'a MultiLangContainer \<Rightarrow> string \<Rightarrow> LanguageFallbackMode \<Rightarrow> error + 'a" where
  "get_item c lang fallback =
     (case map_of (lang2item c) lang of
        Some item \<Rightarrow> Inr item
      | None \<Rightarrow>
          (case fallback of
             EXCEPTION \<Rightarrow> Inl LanguageNotFound
           | ANY \<Rightarrow>
               (case lang2item c of
                  [] \<Rightarrow> Inl NoItemsRegistered
                | (l, item) # rest \<Rightarrow> Inr item)
           | USE_DEFAULT_LANG \<Rightarrow>
               (case map_of (lang2item c) DEFAULT_LANG_CODE of
                  Some item \<Rightarrow> Inr item
                | None \<Rightarrow> Inl DefaultLanguageNotFound)))"

definition container_len :: "'a MultiLangContainer \<Rightarrow> nat" where
  "container_len c = length (lang2item c)"

text \<open>A sequence of \<open>add_item\<close> calls, each with its item, language code and overwrite flag.\<close>

fun add_items ::
  "'a MultiLangContainer \<Rightarrow> ('a \<times> string \<times> bool) list \<Rightarrow> error + 'a MultiLangContainer" where
  "add_items c [] = Inr c"
| "add_items c ((item, lang_code, allow_overwrite) # rest) =
     (case add_item c item lang_code allow_overwrite of
        Inl e \<Rightarrow> Inl e
      | Inr c' \<Rightarrow> add_items c' rest)"

section \<open>MultiLangPromptTemplate\<close>

definition FORBIDDEN_PARAM_NAMES :: "string set" where
  "FORBIDDEN_PARAM_NAMES = {''lang_code'', ''fallback_mode''}"

record 't MultiLangPromptTemplate =
  prompts_container :: "'t PromptTemplate MultiLangContainer"

definition MultiLangPromptTemplate_init :: "string \<Rightarrow> 't MultiLangPromptTemplate" where
  "MultiLangPromptTemplate_init n = \<lparr>prompts_container = MultiLangContainer_init n\<rparr>"

definition mlpt_len :: "'t MultiLangPromptTemplate \<Rightarrow> nat" where
  "mlpt_len m = container_len (prompts_container m)"

definition mlpt_get_parameters ::
  "('t, 'v) JinjaTemplate \<Rightarrow> 't MultiLangPromptTemplate \<Rightarrow> error + string list" where
  "mlpt_get_parameters J m =
     (if mlpt_len m = 0 then Inl NoPromptTemplates
      else Inr (pt_get_parameters J (snd (hd (lang2item (prompts_container m))))))"

definition add_prompt_template ::
  "('t, 'v) JinjaTemplate \<Rightarrow> 't MultiLangPromptTemplate \<Rightarrow> 't PromptTemplate \<Rightarrow> string \<Rightarrow> bool
     \<Rightarrow> error + 't MultiLangPromptTemplate" where
  "add_prompt_template J m prompt_template lang_code allow_overwrite =
     (let incoming_parameters = pt_get_parameters J prompt_template;
          store = (case add_item (prompts_container m) prompt_template lang_code allow_overwrite of
                     Inl e \<Rightarrow> Inl e
                   | Inr c \<Rightarrow> Inr (m\<lparr>prompts_container := c\<rparr>))
      in if FORBIDDEN_PARAM_NAMES \<inter> set incoming_parameters \<noteq> {}
         then Inl ForbiddenParameterNames
         else if mlpt_len m > 0
         then (case mlpt_get_parameters J m of
                 Inl e \<Rightarrow> Inl e
               | Inr parameters \<Rightarrow>
                   if parameters \<noteq> incoming_parameters then Inl InconsistentParameters
                   else store)
         else store)"

definition mlpt_get_prompt_template ::
  "'t MultiLangPromptTemplate \<Rightarrow> string \<Rightarrow> LanguageFallbackMode \<Rightarrow> error + 't PromptTemplate" where
  "mlpt_get_prompt_template m lang_code fallback = get_item (prompts_container m) lang_code fallback"

definition mlpt_render ::
  "('t, 'v) JinjaTemplate \<Rightarrow> 't MultiLangPromptTemplate \<Rightarrow> string \<Rightarrow> LanguageFallbackMode
     \<Rightarrow> (string \<times> 'v) list \<Rightarrow> error + string" where
  "mlpt_render J m lang_code fallback kwargs =
     (case mlpt_get_prompt_template m lang_code fallback of
        Inl e \<Rightarrow> Inl e
      | Inr prompt_template \<Rightarrow> pt_render J prompt_template kwargs)"

text \<open>A sequence of \<open>add_prompt_template\<close> calls on one MultiLangPromptTemplate.\<close>

fun add_prompt_templates ::
  "('t, 'v) JinjaTemplate \<Rightarrow> 't MultiLangPromptTemplate \<Rightarrow> ('t PromptTemplate \<times> string \<times> bool) list
     \<Rightarrow> error + 't MultiLangPromptTemplate" where
  "add_prompt_templates J m [] = Inr m"
| "add_prompt_templates J m ((prompt_template, lang_code, allow_overwrite) # rest) =
     (case add_prompt_template J m prompt_template lang_code allow_overwrite of
        Inl e \<Rightarrow> Inl e
      | Inr m' \<Rightarrow> add_prompt_templates J m' rest)"

section \<open>Parsed YAML\<close>

text \<open>
  What \<open>yaml.safe_load\<close> returns: a string, a list, a mapping (its keys are strings here,
  distinct, in file order), or some other scalar (null, a number, a boolean), for which
  \<open>YScalar\<close> stands.
\<close>

datatype yaml =
    YStr string
  | YList "yaml list"
  | YMap "(string \<times> yaml) list"
  | YScalar

section \<open>PromptCollection\<close>

record 't PromptCollection =
  multi_lang_prompt_templates :: "(string \<times> 't MultiLangPromptTemplate) list"
  multi_lang_prompt_lists :: "(string \<times> PromptList MultiLangContainer) list"
  fallback_mode :: LanguageFallbackMode

text \<open>
  \<open>_add_prompt_template\<close>: the new entry is created when the name is not registered yet,
  and the variant is added to the entry under that name. When the call raises, Python
  leaves the collection with what was registered up to then (a new entry without
  variants, for a name that was not registered); the model returns the error alone, as
  the constructor of the collection, the only caller, fails with it.
\<close>

definition collection_add_prompt_template ::
  "('t, 'v) JinjaTemplate \<Rightarrow> 't PromptCollection \<Rightarrow> string \<Rightarrow> string \<Rightarrow> string
     \<Rightarrow> error + 't PromptCollection" where
  "collection_add_prompt_template J pc n template_str lang_code =
     (case PromptTemplate_init J n template_str of
        Inl e \<Rightarrow> Inl e
      | Inr prompt_template \<Rightarrow>
          (let mlpt = (case map_of (multi_lang_prompt_templates pc) n of
                         None \<Rightarrow> MultiLangPromptTemplate_init n
                       | Some m \<Rightarrow> m)
           in case add_prompt_template J mlpt prompt_template lang_code False of
                Inl e \<Rightarrow> Inl e
              | Inr mlpt' \<Rightarrow>
                  Inr (pc\<lparr>multi_lang_prompt_templates :=
                           AList.update n mlpt' (multi_lang_prompt_templates pc)\<rparr>)))"

text \<open>
  \<open>_add_prompt_list\<close>: \<open>PromptList(prompt_list)\<close> calls \<open>strip\<close> on every element, which
  raises \<open>AttributeError\<close> on an element that is not a string.
\<close>

fun yaml_strings :: "yaml list \<Rightarrow> string list option" where
  "yaml_strings [] = Some []"
| "yaml_strings (YStr s # ys) = map_option (Cons s) (yaml_strings ys)"
| "yaml_strings (y # ys) = None"

definition collection_add_prompt_list ::
  "'t PromptCollection \<Rightarrow> string \<Rightarrow> yaml list \<Rightarrow> string \<Rightarrow> error + 't PromptCollection" where
  "collection_add_prompt_list pc n prompt_list lang_code =
     (let multilang_prompt_list =
            (case map_of (multi_lang_prompt_lists pc) n of
               None \<Rightarrow> MultiLangContainer_init n
             | Some c \<Rightarrow> c)
      in case yaml_strings prompt_list of
           None \<Rightarrow> Inl PyAttributeError
         | Some xs \<Rightarrow>
             (case add_item multilang_prompt_list (PromptList_init xs) lang_code False of
                Inl e \<Rightarrow> Inl e
              | Inr c \<Rightarrow>
                  Inr (pc\<lparr>multi_lang_prompt_lists :=
                           AList.update n c (multi_lang_prompt_lists pc)\<rparr>)))"

text \<open>The inner loop of \<open>_load_from_disc\<close>, over \<open>prompts_data.items()\<close>.\<close>

fun add_prompts ::
  "('t, 'v) JinjaTemplate \<Rightarrow> 't PromptCollection \<Rightarrow> string \<Rightarrow> (string \<times> yaml) list
     \<Rightarrow> error + 't PromptCollection" where
  "add_prompts J pc lang_code [] = Inr pc"
| "add_prompts J pc lang_code ((prompt_name, prompt_template_or_list) # rest) =
     (case (case prompt_template_or_list of
              YList xs \<Rightarrow> collection_add_prompt_list pc prompt_name xs lang_code
            | YStr s \<Rightarrow> collection_add_prompt_template J pc prompt_name s lang_code
            | _ \<Rightarrow> Inl InvalidPromptType) of
        Inl e \<Rightarrow> Inl e
      | Inr pc' \<Rightarrow> add_prompts J pc' lang_code rest)"

text \<open>
  The inner loop for a language code that is not a string (\<open>prompts_data.get("lang", ...)\<close>
  returns whatever stands under \<open>lang\<close>). The flag says whether the value is hashable: a
  scalar is, a list and a mapping are not. Each entry goes through the same steps as for a
  string, up to \<open>add_item\<close>:
  \<^item> \<open>lang_code in self._lang2item\<close> raises \<open>TypeError\<close> for a value that is not hashable;
  \<^item> a hashable value that is not a string is equal to no key registered so far (keys
    of earlier files are strings, and a name occurs once in a mapping), so the item is
    stored under it.
  The model does not keep what is stored under such a key: the loop goes on to the entry
  \<open>lang\<close> itself, which is neither a string nor a list in the hashable case, so the load
  fails there at the latest and no collection comes out of it.
\<close>

definition other_key_add_prompt_template ::
  "('t, 'v) JinjaTemplate \<Rightarrow> 't PromptCollection \<Rightarrow> string \<Rightarrow> string \<Rightarrow> bool
     \<Rightarrow> error + 't PromptCollection" where
  "other_key_add_prompt_template J pc n template_str hashable =
     (case PromptTemplate_init J n template_str of
        Inl e \<Rightarrow> Inl e
      | Inr prompt_template \<Rightarrow>
          (let mlpt = (case map_of (multi_lang_prompt_templates pc) n of
                         None \<Rightarrow> MultiLangPromptTemplate_init n
                       | Some m \<Rightarrow> m);
               incoming_parameters = pt_get_parameters J prompt_template;
               store = (if hashable then Inr pc else Inl PyTypeError)
           in if FORBIDDEN_PARAM_NAMES \<inter> set incoming_parameters \<noteq> {}
              then Inl ForbiddenParameterNames
              else if mlpt_len mlpt > 0
              then (case mlpt_get_parameters J mlpt of
                      Inl e \<Rightarrow> Inl e
                    | Inr parameters \<Rightarrow>
                        if parameters \<noteq> incoming_parameters then Inl InconsistentParameters
                        else store)
              else store))"

definition other_key_add_prompt_list ::
  "'t PromptCollection \<Rightarrow> string \<Rightarrow> yaml list \<Rightarrow> bool \<Rightarrow> error + 't PromptCollection" where
  "other_key_add_prompt_list pc n prompt_list hashable =
     (case yaml_strings prompt_list of
        None \<Rightarrow> Inl PyAttributeError
      | Some xs \<Rightarrow> if hashable then Inr pc else Inl PyTypeError)"

fun other_key_add_prompts ::
  "('t, 'v) JinjaTemplate \<Rightarrow> 't PromptCollection \<Rightarrow> bool \<Rightarrow> (string \<times> yaml) list
     \<Rightarrow> error + 't PromptCollection" where
  "other_key_add_prompts J pc hashable [] = Inr pc"
| "other_key_add_prompts J pc hashable ((prompt_name, prompt_template_or_list) # rest) =
     (case (case prompt_template_or_list of
              YList xs \<Rightarrow> other_key_add_prompt_list pc prompt_name xs hashable
            | YStr s \<Rightarrow> other_key_add_prompt_template J pc prompt_name s hashable
            | _ \<Rightarrow> Inl InvalidPromptType) of
        Inl e \<Rightarrow> Inl e
      | Inr pc' \<Rightarrow> other_key_add_prompts J pc' hashable rest)"

text \<open>
  The body of the outer loop for one parsed file: \<open>data["prompts"]\<close>, then
  \<open>prompts_data.get("lang", DEFAULT_LANG_CODE)\<close>, then the inner loop. The language code is
  looked up in \<open>prompts_data\<close>, the mapping under \<open>prompts\<close>, and the entry \<open>lang\<close> of
  that mapping is visited by the inner loop like every other entry.

  A subscript with a string raises \<open>KeyError\<close> on a mapping without the key and
  \<open>TypeError\<close> on anything that is not a mapping; \<open>.get\<close> raises \<open>AttributeError\<close> on
  anything that is not a mapping.
\<close>

definition load_data ::
  "('t, 'v) JinjaTemplate \<Rightarrow> 't PromptCollection \<Rightarrow> yaml \<Rightarrow> error + 't PromptCollection" where
  "load_data J pc data =
     (case data of
        YMap entries \<Rightarrow>
          (case map_of entries ''prompts'' of
             None \<Rightarrow> Inl MissingPromptsKey
           | Some (YMap prompts_data) \<Rightarrow>
               (case map_of prompts_data ''lang'' of
                  None \<Rightarrow> add_prompts J pc DEFAULT_LANG_CODE prompts_data
                | Some (YStr lang_code) \<Rightarrow> add_prompts J pc lang_code prompts_data
                | Some YScalar \<Rightarrow> other_key_add_prompts J pc True prompts_data
                | Some _ \<Rightarrow> other_key_add_prompts J pc False prompts_data)
           | Some _ \<Rightarrow> Inl PyAttributeError)
      | _ \<Rightarrow> Inl PyTypeError)"

text \<open>
  \<open>_load_from_disc\<close>: the directory is the list of its file names, in the order
  \<open>os.listdir\<close> gives them, each with the parsed content of the file.
\<close>

fun load_from_disc ::
  "('t, 'v) JinjaTemplate \<Rightarrow> 't PromptCollection \<Rightarrow> (string \<times> yaml) list
     \<Rightarrow> error + 't PromptCollection" where
  "load_from_disc J pc [] = Inr pc"
| "load_from_disc J pc ((fn, data) # files) =
     (if \<not> (endswith fn ''.yml'' \<or> endswith fn ''.yaml'') then load_from_disc J pc files
      else (case load_data J pc data of
              Inl e \<Rightarrow> Inl e
            | Inr pc' \<Rightarrow> load_from_disc J pc' files))"

definition PromptCollection_init ::
  "('t, 'v) JinjaTemplate \<Rightarrow> (string \<times> yaml) list \<Rightarrow> LanguageFallbackMode
     \<Rightarrow> error + 't PromptCollection" where
  "PromptCollection_init J prompts_dir fallback =
     load_from_disc J
       \<lparr>multi_lang_prompt_templates = [], multi_lang_prompt_lists = [], fallback_mode = fallback\<rparr>
       prompts_dir"

definition get_prompt_template_names :: "'t PromptCollection \<Rightarrow> string list" where
  "get_prompt_template_names pc = map fst (multi_lang_prompt_templates pc)"

definition get_prompt_list_names :: "'t PromptCollection \<Rightarrow> string list" where
  "get_prompt_list_names pc = map fst (multi_lang_prompt_lists pc)"

definition get_multilang_prompt_template ::
  "'t PromptCollection \<Rightarrow> string \<Rightarrow> error + 't MultiLangPromptTemplate" where
  "get_multilang_prompt_template pc prompt_name =
     (case map_of (multi_lang_prompt_templates pc) prompt_name of
        None \<Rightarrow> Inl UnknownName
      | Some m \<Rightarrow> Inr m)"

definition get_multilang_prompt_list ::
  "'t PromptCollection \<Rightarrow> string \<Rightarrow> error + PromptList MultiLangContainer" where
  "get_multilang_prompt_list pc prompt_name =
     (case map_of (multi_lang_prompt_lists pc) prompt_name of
        None \<Rightarrow> Inl UnknownName
      | Some c \<Rightarrow> Inr c)"

definition get_prompt_template ::
  "'t PromptCollection \<Rightarrow> string \<Rightarrow> string \<Rightarrow> error + 't PromptTemplate" where
  "get_prompt_template pc prompt_name lang_code =
     (case get_multilang_prompt_template pc prompt_name of
        Inl e \<Rightarrow> Inl e
      | Inr m \<Rightarrow> mlpt_get_prompt_template m lang_code (fallback_mode pc))"

definition get_prompt_template_parameters ::
  "('t, 'v) JinjaTemplate \<Rightarrow> 't PromptCollection \<Rightarrow> string \<Rightarrow> error + string list" where
  "get_prompt_template_parameters J pc prompt_name =
     (case get_multilang_prompt_template pc prompt_name of
        Inl e \<Rightarrow> Inl e
      | Inr m \<Rightarrow> mlpt_get_parameters J m)"

text \<open>\<open>get_prompt_list\<close> calls \<open>get_item(lang_code)\<close>: the fallback mode is the default of
  \<open>get_item\<close>, which is \<open>EXCEPTION\<close>.\<close>

definition get_prompt_list ::
  "'t PromptCollection \<Rightarrow> string \<Rightarrow> string \<Rightarrow> error + PromptList" where
  "get_prompt_list pc prompt_name lang_code =
     (case get_multilang_prompt_list pc prompt_name of
        Inl e \<Rightarrow> Inl e
      | Inr c \<Rightarrow> get_item c lang_code EXCEPTION)"

definition render_prompt_template ::
  "('t, 'v) JinjaTemplate \<Rightarrow> 't PromptCollection \<Rightarrow> string \<Rightarrow> string \<Rightarrow> (string \<times> 'v) list
     \<Rightarrow> error + string" where
  "render_prompt_template J pc prompt_name lang_code kwargs =
     (case get_prompt_template pc prompt_name lang_code of
        Inl e \<Rightarrow> Inl e
      | Inr prompt_template \<Rightarrow> pt_render J prompt_template kwargs)"

section \<open>Concrete inputs\<close>

text \<open>
  An engine for concrete inputs, given by a table from template text to parameter
  names: it compiles every text to itself, reports the parameters the table lists (none
  for a text that is not in the table) and renders a text to itself.
\<close>

definition table_engine :: "(string \<times> string list) list \<Rightarrow> (string, string) JinjaTemplate" where
  "table_engine tbl =
     \<lparr>jinja_init = Inr,
      jinja_render = (\<lambda>t kwargs. Inr t),
      jinja_get_parameters = (\<lambda>t. case map_of tbl t of Some ps \<Rightarrow> ps | None \<Rightarrow> [])\<rparr>"

definition greet_engine :: "(string, string) JinjaTemplate" where
  "greet_engine =
     table_engine
       [(''Hello {{name}}'', [''name'']),
        (''Bonjour {{name}}'', [''name'']),
        (''Hello {{first}} {{last}}'', [''first'', ''last'']),
        (''Use {{lang_code}}'', [''lang_code''])]"

text \<open>
  The two files of the scenario with one template in two languages:
  \<^verbatim>\<open>lang: en\<close> and \<^verbatim>\<open>prompts: {greet: "Hello {{name}}"}\<close> in \<open>a.yaml\<close>,
  \<^verbatim>\<open>lang: fr\<close> and \<^verbatim>\<open>prompts: {greet: "Bonjour {{name}}"}\<close> in \<open>b.yaml\<close>.
\<close>

definition a_yaml :: "string \<times> yaml" where
  "a_yaml =
     (''a.yaml'', YMap [(''lang'', YStr ''en''), (''prompts'', YMap [(''greet'', YStr ''Hello {{name}}'')])])"

definition b_yaml :: "string \<times> yaml" where
  "b_yaml =
     (''b.yaml'', YMap [(''lang'', YStr ''fr''), (''prompts'', YMap [(''greet'', YStr ''Bonjour {{name}}'')])])"

text \<open>A directory with one file, \<^verbatim>\<open>prompts: {tips: ["Be kind", "Be brief"]}\<close>.\<close>

definition tips_dir :: "(string \<times> yaml) list" where
  "tips_dir =
     [(''tips.yaml'', YMap [(''prompts'', YMap [(''tips'', YList [YStr ''Be kind'', YStr ''Be brief''])])])]"

section \<open>Properties of the container\<close>

lemma get_item_registered:
  "map_of (lang2item c) l = Some x \<Longrightarrow> get_item c l fb = Inr x"
  by (simp add: get_item_def)

lemma get_item_Inr_lookup:
  assumes "get_item c l fb = Inr x"
  shows "\<exists>l'. map_of (lang2item c) l' = Some x"
proof (cases "map_of (lang2item c) l")
  case (Some y)
  with assms show ?thesis by (auto simp: get_item_def)
next
  case None
  show ?thesis
  proof (cases fb)
    case ANY
    with None assms obtain k rest where "lang2item c = (k, x) # rest"
      by (auto simp: get_item_def split: list.splits)
    then have "map_of (lang2item c) k = Some x" by simp
    then show ?thesis ..
  next
    case EXCEPTION
    with None assms show ?thesis by (simp add: get_item_def)
  next
    case USE_DEFAULT_LANG
    with None assms show ?thesis by (auto simp: get_item_def split: option.splits)
  qed
qed

lemma add_item_Inr:
  "add_item c x l ao = Inr c' \<Longrightarrow> c' = c\<lparr>lang2item := AList.update l x (lang2item c)\<rparr>"
  by (auto simp: add_item_def split: if_splits)

lemma add_item_lookup:
  "add_item c x l ao = Inr c' \<Longrightarrow> map_of (lang2item c') = (map_of (lang2item c))(l \<mapsto> x)"
  by (auto dest!: add_item_Inr simp: update_conv')

lemma add_item_overwrite:
  "add_item c x l True = Inr (c\<lparr>lang2item := AList.update l x (lang2item c)\<rparr>)"
  by (simp add: add_item_def)

lemma add_item_duplicate:
  "map_of (lang2item c) l = Some y \<Longrightarrow> add_item c x l False = Inl DuplicateLanguage"
  by (auto simp: add_item_def dest: map_of_SomeD intro: rev_image_eqI)

lemma add_item_Inl:
  "add_item c x l ao = Inl e \<Longrightarrow> e = DuplicateLanguage \<and> \<not> ao \<and> l \<in> fst ` set (lang2item c)"
  by (auto simp: add_item_def split: if_splits)

text \<open>
  Claim C5. Whatever the container and the language code: after a successful
  \<open>add_item\<close> under a code, a second \<open>add_item\<close> under the same code without
  \<open>allow_overwrite\<close> fails with the duplicate-language error and the first item stays the
  one registered under the code; with \<open>allow_overwrite\<close> the second call succeeds,
  \<open>get_item\<close> for the code returns the second item, and the first item cannot be obtained
  from the container any more (under any code and any fallback mode) unless it is equal to
  the second item or was registered under another code before. When already the first
  call fails, the code was registered and the second call fails in the same way.
\<close>

theorem add_item_twice:
  "(case add_item c item1 L ao of
      Inl e \<Rightarrow> add_item c item2 L False = Inl DuplicateLanguage
    | Inr c1 \<Rightarrow>
        add_item c1 item2 L False = Inl DuplicateLanguage
        \<and> get_item c1 L fb = Inr item1
        \<and> (\<exists>c2. add_item c1 item2 L True = Inr c2
              \<and> get_item c2 L fb = Inr item2
              \<and> (item1 \<noteq> item2 \<and> (\<forall>l. l \<noteq> L \<longrightarrow> map_of (lang2item c) l \<noteq> Some item1)
                   \<longrightarrow> (\<forall>l fb'. get_item c2 l fb' \<noteq> Inr item1))))"
proof (cases "add_item c item1 L ao")
  case (Inl e)
  then have "\<not> ao" "L \<in> fst ` set (lang2item c)" by (auto dest: add_item_Inl)
  then show ?thesis using Inl by (simp add: add_item_def)
next
  case (Inr c1)
  have l1: "map_of (lang2item c1) = (map_of (lang2item c))(L \<mapsto> item1)"
    using Inr by (rule add_item_lookup)
  have dup: "add_item c1 item2 L False = Inl DuplicateLanguage"
    by (rule add_item_duplicate [where y = item1]) (simp add: l1)
  have kept: "get_item c1 L fb = Inr item1"
    by (rule get_item_registered) (simp add: l1)
  define c2 where "c2 = c1\<lparr>lang2item := AList.update L item2 (lang2item c1)\<rparr>"
  have ow: "add_item c1 item2 L True = Inr c2"
    unfolding c2_def by (rule add_item_overwrite)
  have l2: "map_of (lang2item c2) = (map_of (lang2item c))(L \<mapsto> item2)"
    using add_item_lookup [OF ow] by (simp add: l1)
  have new: "get_item c2 L fb = Inr item2"
    by (rule get_item_registered) (simp add: l2)
  have gone: "get_item c2 l fb' \<noteq> Inr item1"
    if "item1 \<noteq> item2" and other: "\<forall>l. l \<noteq> L \<longrightarrow> map_of (lang2item c) l \<noteq> Some item1" for l fb'
  proof
    assume "get_item c2 l fb' = Inr item1"
    then obtain l' where "map_of (lang2item c2) l' = Some item1"
      by (auto dest: get_item_Inr_lookup)
    with that show False by (auto simp: l2 split: if_splits)
  qed
  show ?thesis using Inr dup kept ow new gone by auto
qed


theorem add_item_twice_witness:
  "add_item (MultiLangContainer_init ''greet'') ''Hello'' ''en'' False
     = Inr \<lparr>name = ''greet'', lang2item = [(''en'', ''Hello'')]\<rparr>
   \<and> add_item \<lparr>name = ''greet'', lang2item = [(''en'', ''Hello'')]\<rparr> ''Bonjour'' ''en'' False
     = Inl DuplicateLanguage
   \<and> get_item \<lparr>name = ''greet'', lang2item = [(''en'', ''Hello'')]\<rparr> ''en'' EXCEPTION = Inr ''Hello''
   \<and> add_item \<lparr>name = ''greet'', lang2item = [(''en'', ''Hello'')]\<rparr> ''Bonjour'' ''en'' True
     = Inr \<lparr>name = ''greet'', lang2item = [(''en'', ''Bonjour'')]\<rparr>
   \<and> get_item \<lparr>name = ''greet'', lang2item = [(''en'', ''Bonjour'')]\<rparr> ''en'' EXCEPTION = Inr ''Bonjour''
   \<and> ''Hello'' \<noteq> ''Bonjour''
   \<and> (\<forall>l fb. get_item \<lparr>name = ''greet'', lang2item = [(''en'', ''Bonjour'')]\<rparr> l fb \<noteq> Inr ''Hello'')"
  using add_item_twice [where c = "MultiLangContainer_init ''greet''" and ?item1.0 = "''Hello''"
      and L = "''en''" and ao = False and ?item2.0 = "''Bonjour''" and fb = EXCEPTION]
  by (simp add: add_item_def MultiLangContainer_init_def)

lemma add_items_append:
  "add_items c (xs @ ys) =
     (case add_items c xs of Inl e \<Rightarrow> Inl e | Inr c' \<Rightarrow> add_items c' ys)"
  by (induction xs arbitrary: c) (auto split: sum.splits)

lemma add_items_other_languages:
  "add_items c ops = Inr c' \<Longrightarrow> L \<notin> set (map (fst \<circ> snd) ops)
     \<Longrightarrow> map_of (lang2item c') L = map_of (lang2item c) L"
proof (induction ops arbitrary: c)
  case Nil
  then show ?case by simp
next
  case (Cons op ops)
  obtain x l ao where op: "op = (x, l, ao)" by (cases op)
  with Cons.prems obtain c1 where
    c1: "add_item c x l ao = Inr c1" and rest: "add_items c1 ops = Inr c'"
    by (auto split: sum.splits)
  from Cons.prems op have "l \<noteq> L" and "L \<notin> set (map (fst \<circ> snd) ops)" by auto
  with Cons.IH [OF rest] add_item_lookup [OF c1] show ?case by simp
qed

text \<open>
  Claim C6. In every sequence of insertions that all succeed, starting from any container,
  an item inserted under a language code is what \<open>get_item\<close> with that code and mode
  \<open>EXCEPTION\<close> returns at the end, whatever was inserted before it and whatever was
  inserted under other codes after it.
\<close>

theorem add_item_then_get_item:
  assumes "add_items c (before @ (item, L, ao) # after) = Inr c'"
    and "L \<notin> set (map (fst \<circ> snd) after)"
  shows "get_item c' L EXCEPTION = Inr item"
proof -
  from assms(1) obtain c0 c1 where
    "add_items c before = Inr c0" and
    c1: "add_item c0 item L ao = Inr c1" and
    rest: "add_items c1 after = Inr c'"
    by (auto simp: add_items_append split: sum.splits)
  have "map_of (lang2item c') L = map_of (lang2item c1) L"
    using rest assms(2) by (rule add_items_other_languages)
  also have "\<dots> = Some item"
    using add_item_lookup [OF c1] by simp
  finally show ?thesis by (rule get_item_registered)
qed

theorem add_item_then_get_item_witness:
  "add_items (MultiLangContainer_init ''greet'')
     ([(''Hello'', ''en'', False)] @ (''Bonjour'', ''fr'', False) # [(''Hallo'', ''de'', False)])
     = Inr \<lparr>name = ''greet'',
            lang2item = [(''en'', ''Hello''), (''fr'', ''Bonjour''), (''de'', ''Hallo'')]\<rparr>
   \<and> ''fr'' \<notin> set (map (fst \<circ> snd) [(''Hallo'', ''de'', False)])
   \<and> get_item \<lparr>name = ''greet'',
            lang2item = [(''en'', ''Hello''), (''fr'', ''Bonjour''), (''de'', ''Hallo'')]\<rparr>
        ''fr'' EXCEPTION = Inr ''Bonjour''"
proof -
  have built: "add_items (MultiLangContainer_init ''greet'')
     ([(''Hello'', ''en'', False)] @ (''Bonjour'', ''fr'', False) # [(''Hallo'', ''de'', False)])
     = Inr \<lparr>name = ''greet'',
            lang2item = [(''en'', ''Hello''), (''fr'', ''Bonjour''), (''de'', ''Hallo'')]\<rparr>"
    by (simp add: add_item_def MultiLangContainer_init_def)
  have other: "''fr'' \<notin> set (map (fst \<circ> snd) [(''Hallo'', ''de'', False)])"
    by simp
  from built other add_item_then_get_item [OF built other] show ?thesis
    by blast
qed

lemma add_items_values:
  "add_items c ops = Inr c'
     \<Longrightarrow> snd ` set (lang2item c') \<subseteq> snd ` set (lang2item c) \<union> fst ` set ops"
proof (induction ops arbitrary: c)
  case Nil
  then show ?case by simp
next
  case (Cons op ops)
  obtain x l ao where op: "op = (x, l, ao)" by (cases op)
  with Cons.prems obtain c1 where
    c1: "add_item c x l ao = Inr c1" and rest: "add_items c1 ops = Inr c'"
    by (auto split: sum.splits)
  have "set (AList.update l x al) \<subseteq> insert (l, x) (set al)" for al :: "(string \<times> 'a) list"
    by (induction al) auto
  then have "snd ` set (lang2item c1) \<subseteq> insert x (snd ` set (lang2item c))"
    using add_item_Inr [OF c1] by fastforce
  with Cons.IH [OF rest] op show ?case by auto
qed

text \<open>
  Claim C7. \<open>get_item\<close> with mode \<open>ANY\<close> fails exactly when the container is empty. On
  a container that is not empty it returns an item of the container, the one registered
  under the requested code when there is one; when the container was built from the
  empty one by insertions, the item is one of the inserted items.
\<close>

theorem get_item_ANY:
  "((\<exists>e. get_item c lang ANY = Inl e) \<longleftrightarrow> lang2item c = [])
   \<and> (lang2item c \<noteq> [] \<longrightarrow>
        (\<exists>item. get_item c lang ANY = Inr item
           \<and> item \<in> snd ` set (lang2item c)
           \<and> (\<forall>x. map_of (lang2item c) lang = Some x \<longrightarrow> item = x)
           \<and> (\<forall>n ops. add_items (MultiLangContainer_init n) ops = Inr c
                 \<longrightarrow> item \<in> fst ` set ops)))"
proof (cases "lang2item c")
  case Nil
  then show ?thesis by (simp add: get_item_def)
next
  case (Cons p rest)
  obtain k v where p: "p = (k, v)" by (cases p)
  define item where "item = (case map_of (lang2item c) lang of Some x \<Rightarrow> x | None \<Rightarrow> v)"
  have res: "get_item c lang ANY = Inr item"
    using Cons p by (simp add: get_item_def item_def split: option.splits)
  have mem: "item \<in> snd ` set (lang2item c)"
  proof (cases "map_of (lang2item c) lang")
    case None
    then show ?thesis using Cons p by (simp add: item_def)
  next
    case (Some x)
    then have "(lang, x) \<in> set (lang2item c)" by (rule map_of_SomeD)
    then show ?thesis using Some by (force simp: item_def)
  qed
  have exact: "\<forall>x. map_of (lang2item c) lang = Some x \<longrightarrow> item = x"
    by (simp add: item_def)
  have inserted: "item \<in> fst ` set ops"
    if "add_items (MultiLangContainer_init n) ops = Inr c" for n ops
    using add_items_values [OF that] mem by (auto simp: MultiLangContainer_init_def)
  show ?thesis using Cons res mem exact inserted by auto
qed

theorem get_item_ANY_witness:
  "add_items (MultiLangContainer_init ''greet'') [(''Hello'', ''en'', False), (''Bonjour'', ''fr'', False)]
     = Inr \<lparr>name = ''greet'', lang2item = [(''en'', ''Hello''), (''fr'', ''Bonjour'')]\<rparr>
   \<and> lang2item \<lparr>name = ''greet'', lang2item = [(''en'', ''Hello''), (''fr'', ''Bonjour'')]\<rparr> \<noteq> []
   \<and> get_item \<lparr>name = ''greet'', lang2item = [(''en'', ''Hello''), (''fr'', ''Bonjour'')]\<rparr> ''de'' ANY
       = Inr ''Hello''
   \<and> get_item \<lparr>name = ''greet'', lang2item = [(''en'', ''Hello''), (''fr'', ''Bonjour'')]\<rparr> ''fr'' ANY
       = Inr ''Bonjour''
   \<and> (\<exists>e. get_item (MultiLangContainer_init ''greet'' :: string MultiLangContainer) ''de'' ANY = Inl e)"
  using get_item_ANY [where c = "\<lparr>name = ''greet'', lang2item = [(''en'', ''Hello''), (''fr'', ''Bonjour'')]\<rparr>" and lang = "''de''"]
    get_item_ANY [where c = "\<lparr>name = ''greet'', lang2item = [(''en'', ''Hello''), (''fr'', ''Bonjour'')]\<rparr>" and lang = "''fr''"]
    get_item_ANY [where c = "MultiLangContainer_init ''greet'' :: string MultiLangContainer" and lang = "''de''"]
  by (simp add: add_item_def MultiLangContainer_init_def get_item_def)

section \<open>Properties of PromptTemplate and PromptList\<close>

lemma strip_surround:
  assumes a: "\<forall>c\<in>set a. isspace c" and b: "\<forall>c\<in>set b. isspace c"
  shows "strip (a @ s @ b) = strip s"
proof -
  have 1: "dropWhile isspace (a @ s @ b) = dropWhile isspace (s @ b)"
    using a by (simp add: dropWhile_append2)
  show ?thesis
  proof (cases "\<forall>c\<in>set s. isspace c")
    case True
    then have e1: "dropWhile isspace (a @ s @ b) = []"
      using a b by (auto simp: dropWhile_eq_Nil_conv)
    have e2: "dropWhile isspace s = []"
      using True by (simp add: dropWhile_eq_Nil_conv)
    show ?thesis unfolding strip_def e1 e2 by simp
  next
    case False
    then have "dropWhile isspace (s @ b) = dropWhile isspace s @ b"
      by (auto simp: dropWhile_append1)
    then have "rev (dropWhile isspace (a @ s @ b)) = rev b @ rev (dropWhile isspace s)"
      by (simp add: 1)
    moreover have "dropWhile isspace (rev b @ xs) = dropWhile isspace xs" for xs
      by (rule dropWhile_append2) (use b in auto)
    ultimately show ?thesis by (simp add: strip_def)
  qed
qed

lemma strip_decompose:
  "\<exists>a b. s = a @ strip s @ b \<and> (\<forall>c\<in>set a. isspace c) \<and> (\<forall>c\<in>set b. isspace c)"
proof -
  define a where "a = takeWhile isspace s"
  define r where "r = dropWhile isspace s"
  define b where "b = rev (takeWhile isspace (rev r))"
  have "s = a @ r" by (simp add: a_def r_def)
  moreover have "rev r = takeWhile isspace (rev r) @ dropWhile isspace (rev r)" by simp
  then have "r = strip s @ b"
    unfolding strip_def b_def r_def by (metis rev_append rev_rev_ident)
  moreover have "\<forall>c\<in>set a. isspace c" unfolding a_def by (auto dest: set_takeWhileD)
  moreover have "\<forall>c\<in>set b. isspace c" unfolding b_def by (auto dest: set_takeWhileD)
  ultimately show ?thesis by auto
qed

lemma strip_idem: "strip (strip s) = strip s"
proof -
  obtain a b where "s = a @ strip s @ b" "\<forall>c\<in>set a. isspace c" "\<forall>c\<in>set b. isspace c"
    using strip_decompose by blast
  then show ?thesis using strip_surround [of a b "strip s"] by simp
qed

lemma strip_ends:
  assumes "strip s \<noteq> []"
  shows "\<not> isspace (hd (strip s)) \<and> \<not> isspace (last (strip s))"
proof -
  define r where "r = dropWhile isspace s"
  define q where "q = dropWhile isspace (rev r)"
  have s: "strip s = rev q" by (simp add: strip_def q_def r_def)
  with assms have q: "q \<noteq> []" by simp
  then have "\<not> isspace (hd q)" unfolding q_def by (rule hd_dropWhile)
  then have l: "\<not> isspace (last (strip s))" using q by (simp add: s last_rev)
  have r: "r \<noteq> []" using q by (auto simp: q_def)
  then have "\<not> isspace (hd r)" unfolding r_def by (rule hd_dropWhile)
  moreover have "rev r = takeWhile isspace (rev r) @ q" by (simp add: q_def)
  then have "last (rev r) = last q" using q by (metis last_appendR)
  then have "hd r = last q" using r by (simp add: last_rev)
  ultimately have "\<not> isspace (hd (strip s))" using q by (simp add: s hd_rev)
  with l show ?thesis by simp
qed

text \<open>
  Claim C10. \<open>PromptTemplate\<close> strips leading and trailing whitespace from its template
  string at construction: the string is a run of whitespace, the stripped string, and a
  run of whitespace; the stripped string neither begins nor ends with whitespace; and
  the stripped string is what the engine is given. Hence whitespace around a string makes
  no difference: built from \<open>s\<close> and built from \<open>s\<close> without its surrounding whitespace, the
  two objects are the same (or the engine rejects both with the same error), so they
  render to the same result under every binding and have the same parameters.
\<close>

theorem strip_at_construction:
  "(\<exists>a b. s = a @ strip s @ b \<and> (\<forall>c\<in>set a. isspace c) \<and> (\<forall>c\<in>set b. isspace c))
   \<and> (strip s \<noteq> [] \<longrightarrow> \<not> isspace (hd (strip s)) \<and> \<not> isspace (last (strip s)))
   \<and> PromptTemplate_init J n s
       = map_sum id (\<lambda>t. \<lparr>pt_name = n, jinja_template = t\<rparr>) (jinja_init J (strip s))
   \<and> (\<forall>a b. (\<forall>c\<in>set a. isspace c) \<and> (\<forall>c\<in>set b. isspace c) \<longrightarrow>
          PromptTemplate_init J n (a @ s @ b) = PromptTemplate_init J n s)
   \<and> PromptTemplate_init J n (strip s) = PromptTemplate_init J n s
   \<and> map_sum id (\<lambda>pt. pt_render J pt kwargs) (PromptTemplate_init J n (strip s))
       = map_sum id (\<lambda>pt. pt_render J pt kwargs) (PromptTemplate_init J n s)
   \<and> map_sum id (\<lambda>pt. set (pt_get_parameters J pt)) (PromptTemplate_init J n (strip s))
       = map_sum id (\<lambda>pt. set (pt_get_parameters J pt)) (PromptTemplate_init J n s)"
proof -
  have dec: "\<exists>a b. s = a @ strip s @ b \<and> (\<forall>c\<in>set a. isspace c) \<and> (\<forall>c\<in>set b. isspace c)"
    by (rule strip_decompose)
  have ends: "strip s \<noteq> [] \<longrightarrow> \<not> isspace (hd (strip s)) \<and> \<not> isspace (last (strip s))"
    using strip_ends by blast
  have passed: "PromptTemplate_init J n s
       = map_sum id (\<lambda>t. \<lparr>pt_name = n, jinja_template = t\<rparr>) (jinja_init J (strip s))"
    by (cases "jinja_init J (strip s)") (simp_all add: PromptTemplate_init_def)
  have around: "PromptTemplate_init J n (a @ s @ b) = PromptTemplate_init J n s"
    if "(\<forall>c\<in>set a. isspace c) \<and> (\<forall>c\<in>set b. isspace c)" for a b
    using that strip_surround [of a b s] by (simp add: PromptTemplate_init_def)
  have "strip (strip s) = strip s"
    by (rule strip_idem)
  then have same: "PromptTemplate_init J n (strip s) = PromptTemplate_init J n s"
    by (simp add: PromptTemplate_init_def)
  show ?thesis
    using dec ends passed around unfolding same by blast
qed

theorem strip_at_construction_witness:
  "strip (''  Hello {{name}}'' @ [newline]) = ''Hello {{name}}''
   \<and> PromptTemplate_init greet_engine ''greet'' (''  Hello {{name}}'' @ [newline])
     = Inr \<lparr>pt_name = ''greet'', jinja_template = ''Hello {{name}}''\<rparr>
   \<and> PromptTemplate_init greet_engine ''greet'' (strip (''  Hello {{name}}'' @ [newline]))
     = Inr \<lparr>pt_name = ''greet'', jinja_template = ''Hello {{name}}''\<rparr>
   \<and> isspace CHR '' '' \<and> isspace newline
   \<and> PromptTemplate_init greet_engine ''greet'' (''  '' @ ''Hello {{name}}'' @ [newline])
     = PromptTemplate_init greet_engine ''greet'' ''Hello {{name}}''
   \<and> strip (CHR 0x09 # '' Au revoir,  {{name}} '') = ''Au revoir,  {{name}}''
   \<and> strip (CHR 0x09 # '' Au revoir,  {{name}} '') \<noteq> []
   \<and> \<not> isspace (hd (strip (CHR 0x09 # '' Au revoir,  {{name}} '')))
   \<and> \<not> isspace (last (strip (CHR 0x09 # '' Au revoir,  {{name}} '')))
   \<and> PromptTemplate_init greet_engine ''bye'' (CHR 0x09 # '' Au revoir,  {{name}} '')
     = Inr \<lparr>pt_name = ''bye'', jinja_template = ''Au revoir,  {{name}}''\<rparr>"
proof -
  let ?hello = "''  Hello {{name}}'' @ [newline]"
  let ?bye = "CHR 0x09 # '' Au revoir,  {{name}} ''"
  have st: "strip ?hello = ''Hello {{name}}''" "strip ?bye = ''Au revoir,  {{name}}''"
    by (simp_all add: strip_def isspace_def newline_def)
  have ws: "isspace CHR '' '' \<and> isspace newline"
    by (simp add: isspace_def newline_def)
  then have ws': "(\<forall>c\<in>set ''  ''. isspace c) \<and> (\<forall>c\<in>set [newline]. isspace c)"
    by simp
  have around: "PromptTemplate_init greet_engine ''greet'' (''  '' @ ''Hello {{name}}'' @ [newline])
     = PromptTemplate_init greet_engine ''greet'' ''Hello {{name}}''"
    using strip_at_construction [where J = greet_engine and n = "''greet''" and s = "''Hello {{name}}''",
        THEN conjunct2, THEN conjunct2, THEN conjunct2, THEN conjunct1] ws'
    by blast
  have init: "jinja_init greet_engine = Inr"
    by (simp add: greet_engine_def table_engine_def)
  note hello = strip_at_construction [where J = greet_engine and n = "''greet''" and s = ?hello]
  note bye = strip_at_construction [where J = greet_engine and n = "''bye''" and s = ?bye]
  have i1: "PromptTemplate_init greet_engine ''greet'' ?hello
     = Inr \<lparr>pt_name = ''greet'', jinja_template = ''Hello {{name}}''\<rparr>"
    unfolding hello [THEN conjunct2, THEN conjunct2, THEN conjunct1] st init by simp
  have i2: "PromptTemplate_init greet_engine ''greet'' (strip ?hello)
     = Inr \<lparr>pt_name = ''greet'', jinja_template = ''Hello {{name}}''\<rparr>"
    unfolding hello [THEN conjunct2, THEN conjunct2, THEN conjunct2, THEN conjunct2, THEN conjunct1]
    by (rule i1)
  have i3: "PromptTemplate_init greet_engine ''bye'' ?bye
     = Inr \<lparr>pt_name = ''bye'', jinja_template = ''Au revoir,  {{name}}''\<rparr>"
    unfolding bye [THEN conjunct2, THEN conjunct2, THEN conjunct1] st init by simp
  have ne: "strip ?bye \<noteq> []"
    unfolding st by simp
  have e: "\<not> isspace (hd (strip ?bye)) \<and> \<not> isspace (last (strip ?bye))"
    using bye [THEN conjunct2, THEN conjunct1] ne by (rule mp)
  from st ws around i1 i2 i3 ne e show ?thesis by blast
qed

text \<open>
  Claim C4. For the items \<open>Be kind\<close> and \<open>Be brief\<close>, \<open>to_string\<close> returns
  \<open>Be kind\<close>, a line break, and \<open> * Be brief\<close>: the separator \<open>"\n * "\<close> stands between the
  items, and nothing stands before the first one. The result the claim gives, with
  \<open> * \<close> before \<open>Be kind\<close> as well, is not what is returned.
\<close>

theorem to_string_tips:
  "to_string (PromptList_init [''Be kind'', ''Be brief'']) = ''Be kind'' @ newline # '' * Be brief''
   \<and> to_string (PromptList_init [''Be kind'', ''Be brief''])
       \<noteq> '' * Be kind'' @ newline # '' * Be brief''"
  by (simp add: to_string_def PromptList_init_def strip_def isspace_def replace_def newline_def)

section \<open>Properties of MultiLangPromptTemplate\<close>

lemma add_item_succeeds_iff:
  "(\<exists>c'. add_item c x l ao = Inr c') \<longleftrightarrow> ao \<or> l \<notin> set (get_language_codes c)"
  by (auto simp: add_item_def get_language_codes_def)

lemma forbidden_iff:
  "FORBIDDEN_PARAM_NAMES \<inter> set ps \<noteq> {} \<longleftrightarrow> ''lang_code'' \<in> set ps \<or> ''fallback_mode'' \<in> set ps"
  by (auto simp: FORBIDDEN_PARAM_NAMES_def)

lemma mlpt_get_parameters_first:
  "lang2item (prompts_container m) = (l0, first) # rest
     \<Longrightarrow> mlpt_len m > 0 \<and> mlpt_get_parameters J m = Inr (pt_get_parameters J first)"
  by (simp add: mlpt_get_parameters_def mlpt_len_def container_len_def)

lemma add_prompt_template_forbidden:
  "FORBIDDEN_PARAM_NAMES \<inter> set (pt_get_parameters J pt) \<noteq> {}
     \<Longrightarrow> add_prompt_template J m pt lang ao = Inl ForbiddenParameterNames"
  by (simp add: add_prompt_template_def Let_def)

lemma add_prompt_template_empty:
  "FORBIDDEN_PARAM_NAMES \<inter> set (pt_get_parameters J pt) = {} \<Longrightarrow> lang2item (prompts_container m) = []
     \<Longrightarrow> add_prompt_template J m pt lang ao =
         map_sum id (\<lambda>c. m\<lparr>prompts_container := c\<rparr>) (add_item (prompts_container m) pt lang ao)"
  by (simp add: add_prompt_template_def Let_def mlpt_len_def container_len_def split: sum.splits)

lemma add_prompt_template_nonempty:
  "FORBIDDEN_PARAM_NAMES \<inter> set (pt_get_parameters J pt) = {}
     \<Longrightarrow> lang2item (prompts_container m) = (l0, first) # rest
     \<Longrightarrow> add_prompt_template J m pt lang ao =
         (if pt_get_parameters J first \<noteq> pt_get_parameters J pt then Inl InconsistentParameters
          else map_sum id (\<lambda>c. m\<lparr>prompts_container := c\<rparr>) (add_item (prompts_container m) pt lang ao))"
  by (simp add: add_prompt_template_def Let_def mlpt_get_parameters_first split: sum.splits)

text \<open>
  Claim C8. \<open>add_prompt_template\<close> fails with the forbidden-parameter error exactly when
  the parameters of the template contain \<open>lang_code\<close> or \<open>fallback_mode\<close>, for every
  language code, every overwrite flag and every state of the MultiLangPromptTemplate.
\<close>

theorem reserved_parameter_names:
  "add_prompt_template J m pt lang ao = Inl ForbiddenParameterNames \<longleftrightarrow>
     ''lang_code'' \<in> set (pt_get_parameters J pt) \<or> ''fallback_mode'' \<in> set (pt_get_parameters J pt)"
proof (cases "FORBIDDEN_PARAM_NAMES \<inter> set (pt_get_parameters J pt) = {}")
  case False
  then show ?thesis
    using add_prompt_template_forbidden [of J pt m lang ao] by (simp add: forbidden_iff)
next
  case True
  have "add_prompt_template J m pt lang ao \<noteq> Inl ForbiddenParameterNames"
  proof (cases "lang2item (prompts_container m)")
    case Nil
    show ?thesis
      unfolding add_prompt_template_empty [OF True Nil]
      by (cases "add_item (prompts_container m) pt lang ao") (auto dest: add_item_Inl)
  next
    case (Cons p rest)
    obtain l0 first where "p = (l0, first)" by (cases p)
    with Cons have ne: "lang2item (prompts_container m) = (l0, first) # rest" by simp
    show ?thesis
      unfolding add_prompt_template_nonempty [OF True ne]
      by (cases "add_item (prompts_container m) pt lang ao") (auto dest: add_item_Inl)
  qed
  with True show ?thesis using forbidden_iff [of "pt_get_parameters J pt"] by simp
qed

theorem reserved_parameter_names_witness:
  "''lang_code'' \<in> set (pt_get_parameters greet_engine \<lparr>pt_name = ''use'', jinja_template = ''Use {{lang_code}}''\<rparr>)
   \<and> add_prompt_template greet_engine (MultiLangPromptTemplate_init ''use'')
         \<lparr>pt_name = ''use'', jinja_template = ''Use {{lang_code}}''\<rparr> ''en'' True
       = Inl ForbiddenParameterNames
   \<and> add_prompt_template greet_engine (MultiLangPromptTemplate_init ''greet'')
         \<lparr>pt_name = ''greet'', jinja_template = ''Hello {{name}}''\<rparr> ''en'' False
       \<noteq> Inl ForbiddenParameterNames"
  using reserved_parameter_names [where J = greet_engine and m = "MultiLangPromptTemplate_init ''use''"
      and pt = "\<lparr>pt_name = ''use'', jinja_template = ''Use {{lang_code}}''\<rparr>"
      and lang = "''en''" and ao = True]
    reserved_parameter_names [where J = greet_engine and m = "MultiLangPromptTemplate_init ''greet''"
      and pt = "\<lparr>pt_name = ''greet'', jinja_template = ''Hello {{name}}''\<rparr>"
      and lang = "''en''" and ao = False]
  by (simp add: pt_get_parameters_def greet_engine_def table_engine_def)

lemma add_prompt_template_Inr:
  assumes "add_prompt_template J m pt l ao = Inr m'"
  shows "FORBIDDEN_PARAM_NAMES \<inter> set (pt_get_parameters J pt) = {}"
    and "lang2item (prompts_container m') = AList.update l pt (lang2item (prompts_container m))"
    and "lang2item (prompts_container m) \<noteq> [] \<Longrightarrow>
           pt_get_parameters J (snd (hd (lang2item (prompts_container m)))) = pt_get_parameters J pt"
  using assms
  by (auto simp: add_prompt_template_def Let_def mlpt_len_def container_len_def
      mlpt_get_parameters_def add_item_def split: if_splits sum.splits)

lemma update_values:
  "snd ` set (AList.update l x al) \<subseteq> insert x (snd ` set al)"
  by (induction al) auto

lemma add_prompt_templates_same_parameters:
  assumes "add_prompt_templates J m ops = Inr m'"
    and "lang2item (prompts_container m) \<noteq> []"
    and "\<forall>t \<in> snd ` set (lang2item (prompts_container m)). pt_get_parameters J t = P"
  shows "lang2item (prompts_container m') \<noteq> []
       \<and> (\<forall>t \<in> snd ` set (lang2item (prompts_container m')). pt_get_parameters J t = P)"
  using assms
proof (induction ops arbitrary: m)
  case Nil
  then show ?case by simp
next
  case (Cons op ops)
  obtain pt l ao where op: "op = (pt, l, ao)" by (cases op)
  with Cons.prems(1) obtain m1 where
    m1: "add_prompt_template J m pt l ao = Inr m1" and rest: "add_prompt_templates J m1 ops = Inr m'"
    by (auto split: sum.splits)
  note up = add_prompt_template_Inr(2) [OF m1]
  have "snd (hd (lang2item (prompts_container m))) \<in> snd ` set (lang2item (prompts_container m))"
    using Cons.prems(2) by simp
  then have "pt_get_parameters J pt = P"
    using add_prompt_template_Inr(3) [OF m1 Cons.prems(2)] Cons.prems(3) by auto
  then have "\<forall>t \<in> insert pt (snd ` set (lang2item (prompts_container m))). pt_get_parameters J t = P"
    using Cons.prems(3) by simp
  then have "\<forall>t \<in> snd ` set (lang2item (prompts_container m1)). pt_get_parameters J t = P"
    unfolding up using update_values [of l pt "lang2item (prompts_container m)"] by blast
  moreover have "lang2item (prompts_container m1) \<noteq> []"
    unfolding up by simp
  ultimately show ?case using Cons.IH [OF rest] by blast
qed

lemma add_prompt_templates_built:
  assumes "add_prompt_templates J (MultiLangPromptTemplate_init n) ((pt0, l0, ao0) # ops) = Inr m"
  shows "FORBIDDEN_PARAM_NAMES \<inter> set (pt_get_parameters J pt0) = {}"
    and "lang2item (prompts_container m) \<noteq> []"
    and "pt_get_parameters J (snd (hd (lang2item (prompts_container m)))) = pt_get_parameters J pt0"
proof -
  from assms obtain m1 where
    m1: "add_prompt_template J (MultiLangPromptTemplate_init n) pt0 l0 ao0 = Inr m1"
    and rest: "add_prompt_templates J m1 ops = Inr m"
    by (auto split: sum.splits)
  show "FORBIDDEN_PARAM_NAMES \<inter> set (pt_get_parameters J pt0) = {}"
    using m1 by (rule add_prompt_template_Inr(1))
  have l1: "lang2item (prompts_container m1) = [(l0, pt0)]"
    using add_prompt_template_Inr(2) [OF m1]
    by (simp add: MultiLangPromptTemplate_init_def MultiLangContainer_init_def)
  have inv: "lang2item (prompts_container m) \<noteq> []
       \<and> (\<forall>t \<in> snd ` set (lang2item (prompts_container m)).
            pt_get_parameters J t = pt_get_parameters J pt0)"
    by (rule add_prompt_templates_same_parameters [OF rest]) (simp_all add: l1)
  then show "lang2item (prompts_container m) \<noteq> []" by simp
  then have "snd (hd (lang2item (prompts_container m))) \<in> snd ` set (lang2item (prompts_container m))"
    by simp
  with inv show "pt_get_parameters J (snd (hd (lang2item (prompts_container m)))) = pt_get_parameters J pt0"
    by blast
qed

text \<open>
  Claim C3, amended. Let the engine report the parameters of every template as a sorted
  list without duplicates, and let a MultiLangPromptTemplate have been built from a new
  one by one or more accepted variants. Adding a further variant succeeds if and only if
  its parameter set is equal to the parameter set of the first variant (which is what
  \<open>get_parameters\<close> of the MultiLangPromptTemplate returns) and, moreover, its language
  code is not registered yet or \<open>allow_overwrite\<close> is set. When the two sets differ the
  call always fails, whichever variant was added first: with the inconsistent-parameters
  error, or with the forbidden-parameter error when the new variant has a forbidden
  parameter name.
\<close>

theorem add_prompt_template_consistency:
  assumes canonical: "\<And>t. sorted (jinja_get_parameters J t) \<and> distinct (jinja_get_parameters J t)"
    and built: "add_prompt_templates J (MultiLangPromptTemplate_init n) ((pt0, l0, ao0) # ops) = Inr m"
  shows "mlpt_len m > 0
     \<and> mlpt_get_parameters J m = Inr (pt_get_parameters J pt0)
     \<and> ((\<exists>m'. add_prompt_template J m pt lang ao = Inr m') \<longleftrightarrow>
          set (pt_get_parameters J pt) = set (pt_get_parameters J pt0)
          \<and> (ao \<or> lang \<notin> set (get_language_codes (prompts_container m))))
     \<and> (set (pt_get_parameters J pt) \<noteq> set (pt_get_parameters J pt0) \<longrightarrow>
          add_prompt_template J m pt lang ao =
            Inl (if FORBIDDEN_PARAM_NAMES \<inter> set (pt_get_parameters J pt) = {}
                 then InconsistentParameters else ForbiddenParameterNames))"
proof -
  note b = add_prompt_templates_built [OF built]
  obtain lf first rest where ne: "lang2item (prompts_container m) = (lf, first) # rest"
    using b(2) by (cases "lang2item (prompts_container m)") auto
  have first: "pt_get_parameters J first = pt_get_parameters J pt0"
    using b(3) ne by simp
  have len: "mlpt_len m > 0" and params: "mlpt_get_parameters J m = Inr (pt_get_parameters J pt0)"
    using mlpt_get_parameters_first [OF ne, of J] first by simp_all
  have sets: "set (pt_get_parameters J pt) = set (pt_get_parameters J pt0)
                \<longleftrightarrow> pt_get_parameters J pt = pt_get_parameters J pt0"
    using canonical by (auto simp: pt_get_parameters_def intro: sorted_distinct_set_unique)
  show ?thesis
  proof (cases "FORBIDDEN_PARAM_NAMES \<inter> set (pt_get_parameters J pt) = {}")
    case True
    note eq = add_prompt_template_nonempty [OF True ne, of lang ao]
    have acc: "(\<exists>m'. add_prompt_template J m pt lang ao = Inr m') \<longleftrightarrow>
          pt_get_parameters J pt = pt_get_parameters J pt0
          \<and> (ao \<or> lang \<notin> set (get_language_codes (prompts_container m)))"
    proof (cases "pt_get_parameters J pt = pt_get_parameters J pt0")
      case False
      then show ?thesis by (auto simp: eq first)
    next
      case same: True
      have "(\<exists>m'. add_prompt_template J m pt lang ao = Inr m') \<longleftrightarrow>
              (\<exists>c'. add_item (prompts_container m) pt lang ao = Inr c')"
        unfolding eq using same first
        by (cases "add_item (prompts_container m) pt lang ao") auto
      then show ?thesis using same by (simp add: add_item_succeeds_iff)
    qed
    have rej: "add_prompt_template J m pt lang ao = Inl InconsistentParameters"
      if "pt_get_parameters J pt \<noteq> pt_get_parameters J pt0"
      using that by (auto simp: eq first)
    show ?thesis using len params acc rej True sets by auto
  next
    case False
    have err: "add_prompt_template J m pt lang ao = Inl ForbiddenParameterNames"
      using False by (rule add_prompt_template_forbidden)
    have "set (pt_get_parameters J pt) \<noteq> set (pt_get_parameters J pt0)"
      using False b(1) by auto
    then show ?thesis using len params err False by auto
  qed
qed

theorem add_prompt_template_consistency_witness:
  "(\<forall>t. sorted (jinja_get_parameters greet_engine t) \<and> distinct (jinja_get_parameters greet_engine t))
   \<and> add_prompt_templates greet_engine (MultiLangPromptTemplate_init ''greet'')
         [(\<lparr>pt_name = ''greet'', jinja_template = ''Hello {{name}}''\<rparr>, ''en'', False)]
       = Inr \<lparr>prompts_container = \<lparr>name = ''greet'', lang2item =
            [(''en'', \<lparr>pt_name = ''greet'', jinja_template = ''Hello {{name}}''\<rparr>)]\<rparr>\<rparr>
   \<and> add_prompt_template greet_engine
         \<lparr>prompts_container = \<lparr>name = ''greet'', lang2item =
            [(''en'', \<lparr>pt_name = ''greet'', jinja_template = ''Hello {{name}}''\<rparr>)]\<rparr>\<rparr>
         \<lparr>pt_name = ''greet'', jinja_template = ''Bonjour {{name}}''\<rparr> ''fr'' False
       = Inr \<lparr>prompts_container = \<lparr>name = ''greet'', lang2item =
            [(''en'', \<lparr>pt_name = ''greet'', jinja_template = ''Hello {{name}}''\<rparr>),
             (''fr'', \<lparr>pt_name = ''greet'', jinja_template = ''Bonjour {{name}}''\<rparr>)]\<rparr>\<rparr>
   \<and> set (pt_get_parameters greet_engine \<lparr>pt_name = ''greet'', jinja_template = ''Hello {{first}} {{last}}''\<rparr>)
       \<noteq> set (pt_get_parameters greet_engine \<lparr>pt_name = ''greet'', jinja_template = ''Hello {{name}}''\<rparr>)
   \<and> add_prompt_template greet_engine
         \<lparr>prompts_container = \<lparr>name = ''greet'', lang2item =
            [(''en'', \<lparr>pt_name = ''greet'', jinja_template = ''Hello {{name}}''\<rparr>)]\<rparr>\<rparr>
         \<lparr>pt_name = ''greet'', jinja_template = ''Hello {{first}} {{last}}''\<rparr> ''fr'' False
       = Inl InconsistentParameters
   \<and> add_prompt_templates greet_engine (MultiLangPromptTemplate_init ''greet'')
         [(\<lparr>pt_name = ''greet'', jinja_template = ''Hello {{first}} {{last}}''\<rparr>, ''fr'', False)]
       = Inr \<lparr>prompts_container = \<lparr>name = ''greet'', lang2item =
            [(''fr'', \<lparr>pt_name = ''greet'', jinja_template = ''Hello {{first}} {{last}}''\<rparr>)]\<rparr>\<rparr>
   \<and> add_prompt_template greet_engine
         \<lparr>prompts_container = \<lparr>name = ''greet'', lang2item =
            [(''fr'', \<lparr>pt_name = ''greet'', jinja_template = ''Hello {{first}} {{last}}''\<rparr>)]\<rparr>\<rparr>
         \<lparr>pt_name = ''greet'', jinja_template = ''Hello {{name}}''\<rparr> ''en'' False
       = Inl InconsistentParameters"
proof -
  let ?en = "\<lparr>pt_name = ''greet'', jinja_template = ''Hello {{name}}''\<rparr>"
  let ?fr = "\<lparr>pt_name = ''greet'', jinja_template = ''Bonjour {{name}}''\<rparr>"
  let ?two = "\<lparr>pt_name = ''greet'', jinja_template = ''Hello {{first}} {{last}}''\<rparr>"
  let ?m_en = "\<lparr>prompts_container = \<lparr>name = ''greet'', lang2item = [(''en'', ?en)]\<rparr>\<rparr>"
  let ?m_two = "\<lparr>prompts_container = \<lparr>name = ''greet'', lang2item = [(''fr'', ?two)]\<rparr>\<rparr>"
  have canonical: "sorted (jinja_get_parameters greet_engine t) \<and> distinct (jinja_get_parameters greet_engine t)"
    for t
    by (simp add: greet_engine_def table_engine_def)
  have p: "pt_get_parameters greet_engine ?fr = [''name'']"
      "pt_get_parameters greet_engine ?en = [''name'']"
      "pt_get_parameters greet_engine ?two = [''first'', ''last'']"
    by (simp_all add: pt_get_parameters_def greet_engine_def table_engine_def)
  have built_en: "add_prompt_templates greet_engine (MultiLangPromptTemplate_init ''greet'')
      [(?en, ''en'', False)] = Inr ?m_en"
    by (simp add: add_prompt_template_def Let_def mlpt_len_def container_len_def p add_item_def
        FORBIDDEN_PARAM_NAMES_def MultiLangPromptTemplate_init_def MultiLangContainer_init_def)
  have built_two: "add_prompt_templates greet_engine (MultiLangPromptTemplate_init ''greet'')
      [(?two, ''fr'', False)] = Inr ?m_two"
    by (simp add: add_prompt_template_def Let_def mlpt_len_def container_len_def p add_item_def
        FORBIDDEN_PARAM_NAMES_def MultiLangPromptTemplate_init_def MultiLangContainer_init_def)
  note t_en = add_prompt_template_consistency [OF canonical built_en]
  note t_two = add_prompt_template_consistency [OF canonical built_two]
  from t_en [where pt = ?fr and lang = "''fr''" and ao = False]
  obtain m' where "add_prompt_template greet_engine ?m_en ?fr ''fr'' False = Inr m'"
    by (auto simp: p get_language_codes_def)
  then have acc: "add_prompt_template greet_engine ?m_en ?fr ''fr'' False
       = Inr \<lparr>prompts_container = \<lparr>name = ''greet'', lang2item = [(''en'', ?en), (''fr'', ?fr)]\<rparr>\<rparr>"
    by (simp add: add_prompt_template_def Let_def mlpt_len_def container_len_def
        mlpt_get_parameters_def p add_item_def FORBIDDEN_PARAM_NAMES_def)
  have differ: "set (pt_get_parameters greet_engine ?two) \<noteq> set (pt_get_parameters greet_engine ?en)"
    by (simp add: p)
  from t_en [where pt = ?two and lang = "''fr''" and ao = False] differ
  have rej1: "add_prompt_template greet_engine ?m_en ?two ''fr'' False = Inl InconsistentParameters"
    by (simp add: p FORBIDDEN_PARAM_NAMES_def)
  from t_two [where pt = ?en and lang = "''en''" and ao = False] differ
  have rej2: "add_prompt_template greet_engine ?m_two ?en ''en'' False = Inl InconsistentParameters"
    by (simp add: p FORBIDDEN_PARAM_NAMES_def)
  from canonical built_en acc differ rej1 built_two rej2 show ?thesis by blast
qed

text \<open>
  Claim C3 as stated fails twice. A variant whose parameter set is that of the first
  variant is rejected, with the duplicate-language error, when its language code is
  registered already and \<open>allow_overwrite\<close> is not set. And a variant whose parameter set
  differs and contains a forbidden name fails with the forbidden-parameter error, which
  is not the inconsistent-parameters error.
\<close>

theorem same_parameters_rejected_counterexample:
  "add_prompt_templates greet_engine (MultiLangPromptTemplate_init ''greet'')
       [(\<lparr>pt_name = ''greet'', jinja_template = ''Hello {{name}}''\<rparr>, ''default'', False)]
     = Inr \<lparr>prompts_container = \<lparr>name = ''greet'', lang2item =
          [(''default'', \<lparr>pt_name = ''greet'', jinja_template = ''Hello {{name}}''\<rparr>)]\<rparr>\<rparr>
   \<and> mlpt_len \<lparr>prompts_container = \<lparr>name = ''greet'', lang2item =
       [(''default'', \<lparr>pt_name = ''greet'', jinja_template = ''Hello {{name}}''\<rparr>)]\<rparr>\<rparr> = 1
   \<and> set (pt_get_parameters greet_engine \<lparr>pt_name = ''greet'', jinja_template = ''Bonjour {{name}}''\<rparr>)
       = set (pt_get_parameters greet_engine \<lparr>pt_name = ''greet'', jinja_template = ''Hello {{name}}''\<rparr>)
   \<and> add_prompt_template greet_engine
         \<lparr>prompts_container = \<lparr>name = ''greet'', lang2item =
            [(''default'', \<lparr>pt_name = ''greet'', jinja_template = ''Hello {{name}}''\<rparr>)]\<rparr>\<rparr>
         \<lparr>pt_name = ''greet'', jinja_template = ''Bonjour {{name}}''\<rparr> ''default'' False
       = Inl DuplicateLanguage
   \<and> set (pt_get_parameters greet_engine \<lparr>pt_name = ''greet'', jinja_template = ''Use {{lang_code}}''\<rparr>)
       \<noteq> set (pt_get_parameters greet_engine \<lparr>pt_name = ''greet'', jinja_template = ''Hello {{name}}''\<rparr>)
   \<and> add_prompt_template greet_engine
         \<lparr>prompts_container = \<lparr>name = ''greet'', lang2item =
            [(''default'', \<lparr>pt_name = ''greet'', jinja_template = ''Hello {{name}}''\<rparr>)]\<rparr>\<rparr>
         \<lparr>pt_name = ''greet'', jinja_template = ''Use {{lang_code}}''\<rparr> ''fr'' False
       = Inl ForbiddenParameterNames
   \<and> ForbiddenParameterNames \<noteq> InconsistentParameters"
  by (simp add: add_prompt_template_def Let_def mlpt_len_def container_len_def mlpt_get_parameters_def
      pt_get_parameters_def greet_engine_def table_engine_def FORBIDDEN_PARAM_NAMES_def add_item_def
      MultiLangPromptTemplate_init_def MultiLangContainer_init_def)

section \<open>Properties of PromptCollection\<close>

text \<open>The entry \<open>lang\<close> at the top level of a file is never read.\<close>

lemma load_data_top_level_lang:
  "load_data J pc (YMap ((''lang'', v) # entries)) = load_data J pc (YMap entries)"
  by (simp add: load_data_def)

lemmas load_defs =
  PromptCollection_init_def a_yaml_def b_yaml_def endswith_def load_data_def
  collection_add_prompt_template_def DEFAULT_LANG_CODE_def MultiLangPromptTemplate_init_def
  MultiLangContainer_init_def PromptTemplate_init_def add_prompt_template_def Let_def
  mlpt_len_def container_len_def mlpt_get_parameters_def add_item_def

text \<open>
  Claim C1. For the directory with \<open>a.yaml\<close> and \<open>b.yaml\<close>, each with its language code
  in a top-level \<open>lang\<close> entry, constructing the PromptCollection fails, in both orders
  of the two files and with every template engine: both files register \<open>greet\<close> under
  the default language code. With an engine that accepts the two templates and reports
  the parameter \<open>name\<close> for both, the error is the duplicate-language error.
\<close>

theorem load_two_languages_fails:
  "isl (PromptCollection_init J [a_yaml, b_yaml] fb)
   \<and> isl (PromptCollection_init J [b_yaml, a_yaml] fb)
   \<and> PromptCollection_init greet_engine [a_yaml, b_yaml] fb = Inl DuplicateLanguage
   \<and> PromptCollection_init greet_engine [b_yaml, a_yaml] fb = Inl DuplicateLanguage"
proof -
  have ab: "isl (PromptCollection_init J [a_yaml, b_yaml] fb)"
    by (auto simp: load_defs split: sum.splits)
  have ba: "isl (PromptCollection_init J [b_yaml, a_yaml] fb)"
    by (auto simp: load_defs split: sum.splits)
  have ab': "PromptCollection_init greet_engine [a_yaml, b_yaml] fb = Inl DuplicateLanguage"
    by (simp add: load_defs greet_engine_def table_engine_def strip_def isspace_def
        pt_get_parameters_def FORBIDDEN_PARAM_NAMES_def)
  have ba': "PromptCollection_init greet_engine [b_yaml, a_yaml] fb = Inl DuplicateLanguage"
    by (simp add: load_defs greet_engine_def table_engine_def strip_def isspace_def
        pt_get_parameters_def FORBIDDEN_PARAM_NAMES_def)
  from ab ba ab' ba' show ?thesis by blast
qed

text \<open>The fallback mode of the collection has no part in \<open>get_prompt_list\<close>.\<close>

lemma get_prompt_list_fallback_mode:
  "get_prompt_list (pc\<lparr>fallback_mode := fb\<rparr>) prompt_name lang_code
     = get_prompt_list pc prompt_name lang_code"
  by (simp add: get_prompt_list_def get_multilang_prompt_list_def)

text \<open>
  Claim C2. For the directory whose one file registers the list \<open>tips\<close> under the
  default language code, \<open>get_prompt_list\<close> with the language code \<open>fr\<close> fails with the
  language-not-found error in a collection whose fallback mode is \<open>ANY\<close> and in one
  whose fallback mode is \<open>USE_DEFAULT_LANG\<close>, although \<open>get_item\<close> with the fallback
  mode of the collection returns the registered list.
\<close>

theorem get_prompt_list_without_fallback:
  "(\<exists>pc c. PromptCollection_init J tips_dir ANY = Inr pc
       \<and> fallback_mode pc = ANY
       \<and> get_multilang_prompt_list pc ''tips'' = Inr c
       \<and> get_language_codes c = [''default'']
       \<and> get_item c ''fr'' (fallback_mode pc) = Inr \<lparr>items = [''Be kind'', ''Be brief'']\<rparr>
       \<and> get_prompt_list pc ''tips'' ''fr'' = Inl LanguageNotFound)
   \<and> (\<exists>pc c. PromptCollection_init J tips_dir USE_DEFAULT_LANG = Inr pc
       \<and> fallback_mode pc = USE_DEFAULT_LANG
       \<and> get_multilang_prompt_list pc ''tips'' = Inr c
       \<and> get_language_codes c = [''default'']
       \<and> get_item c ''fr'' (fallback_mode pc) = Inr \<lparr>items = [''Be kind'', ''Be brief'']\<rparr>
       \<and> get_prompt_list pc ''tips'' ''fr'' = Inl LanguageNotFound)"
  by (simp add: PromptCollection_init_def tips_dir_def endswith_def load_data_def
      collection_add_prompt_list_def DEFAULT_LANG_CODE_def MultiLangContainer_init_def add_item_def
      PromptList_init_def strip_def isspace_def get_multilang_prompt_list_def get_language_codes_def
      get_item_def get_prompt_list_def)

end
